theory Spec2Isabelle
  imports Main
begin

section \<open>Values at the provider boundary\<close>

text \<open>
  The Microsoft Graph client resolves every request to an untyped value (\<open>any\<close>); the
  adapter's annotations (\<open>as MicrosoftCalendar[]\<close>, \<open>: MicrosoftEvent\<close>) are not checked
  at run time. Native calendars, native events and the validated input payloads are
  therefore plain JSON values here. An object lists its own properties, each key once.
\<close>

datatype json =
    JNull
  | JBool bool
  | JNum int
  | JStr string
  | JArr "json list"
  | JObj "(string \<times> json) list"

text \<open>What \<open>catch (error: unknown)\<close> can receive: a failure of the Graph client, or an
  exception of the adapter's own synchronous code or of a mapper.\<close>

datatype js_error =
    TypeError string
  | RangeError string
  | GraphError int string

text \<open>Property read \<open>o.k\<close> on a JSON object; \<open>None\<close> is \<open>undefined\<close>.\<close>

fun property :: "json \<Rightarrow> string \<Rightarrow> json option" where
  "property (JObj kvs) k = map_of kvs k"
| "property _ k = None"

text \<open>
  \<open>(response.value as T[]).map(...)\<close>: the receiver of \<open>.map\<close>. Reading \<open>value\<close> of
  \<open>null\<close> throws, and so does calling \<open>.map\<close> on anything that is not an array.
\<close>

definition response_value :: "json \<Rightarrow> js_error + json list" where
  "response_value response =
     (case property response ''value'' of
        Some (JArr xs) \<Rightarrow> Inr xs
      | _ \<Rightarrow> Inl (TypeError ''response.value.map is not a function''))"

text \<open>\<open>Array.prototype.map\<close> with a callback of the element and its index; the first
  callback that throws ends the traversal.\<close>

fun map_js :: "('a \<Rightarrow> nat \<Rightarrow> js_error + 'b) \<Rightarrow> nat \<Rightarrow> 'a list \<Rightarrow> js_error + 'b list" where
  "map_js f idx [] = Inr []"
| "map_js f idx (x # xs) =
     (case f x idx of
        Inl e \<Rightarrow> Inl e
      | Inr y \<Rightarrow> (case map_js f (Suc idx) xs of Inl e \<Rightarrow> Inl e | Inr ys \<Rightarrow> Inr (y # ys)))"

section \<open>The canonical model\<close>

text \<open>
  Modelled from the spec: the interfaces of \<open>./interfaces\<close> and the input schemas are not
  among the sources. The records keep the fields the spec's data model lists; an event's
  title, description, instants, attendees and recurrence, which the adapter never reads,
  travel in \<open>raw\<close>.
\<close>

datatype provider_id = Google | Microsoft

datatype response_status = Accepted | Tentative | Declined | Unknown

record Calendar =
  id :: string
  accountId :: string
  providerId :: provider_id
  name :: string
  color :: string
  isDefault :: bool
  isReadOnly :: bool
  permissions :: json

record CalendarEvent =
  id :: string
  calendarId' :: string
  accountId :: string
  providerId :: provider_id
  raw :: json

record ResponseToEventInput =
  status :: response_status
  comment :: "string option"
  sendUpdate :: "bool option"

text \<open>\<open>CreateEventInput\<close> and \<open>UpdateEventInput\<close>: the adapter reads \<open>response\<close> only.\<close>

record EventInput =
  response :: "ResponseToEventInput option"
  rest :: json

text \<open>
  Modelled from the spec: \<open>ProviderError\<close> of \<open>./utils\<close> wraps the underlying error, the
  operation name and an optional context map, in the order of its constructor's
  arguments \<open>(error, operation, context)\<close>.
\<close>

record ProviderError =
  underlyingError :: js_error
  operationName :: string
  context' :: "(string \<times> json) list option"

text \<open>\<open>Temporal.ZonedDateTime\<close>: an exact instant and the zone it is read in.\<close>

record ZonedDateTime =
  epochNanoseconds :: int
  timeZoneId :: string

definition withTimeZone :: "ZonedDateTime \<Rightarrow> string \<Rightarrow> ZonedDateTime" where
  "withTimeZone z tz = z\<lparr>timeZoneId := tz\<rparr>"

definition toInstant :: "ZonedDateTime \<Rightarrow> int" where
  "toInstant z = epochNanoseconds z"

section \<open>The Graph client\<close>

datatype verb = GET | POST | PATCH | DELETE

datatype body =
    Payload json
  | Rsvp (rsvp_comment: "string option") (sendResponse: "bool option")

text \<open>The request builder returned by \<open>client.api(path)\<close> and its chained options.\<close>

record GraphRequest =
  path :: string
  headers :: "(string \<times> string) list"
  odata_filter :: "string option"
  odata_orderby :: "string list"
  odata_top :: "nat option"

definition api :: "string \<Rightarrow> GraphRequest" where
  "api p = \<lparr>path = p, headers = [], odata_filter = None, odata_orderby = [], odata_top = None\<rparr>"

definition header :: "string \<Rightarrow> string \<Rightarrow> GraphRequest \<Rightarrow> GraphRequest" where
  "header k v r = r\<lparr>headers := headers r @ [(k, v)]\<rparr>"

definition filter_by :: "string \<Rightarrow> GraphRequest \<Rightarrow> GraphRequest" where
  "filter_by f r = r\<lparr>odata_filter := Some f\<rparr>"

definition orderby :: "string \<Rightarrow> GraphRequest \<Rightarrow> GraphRequest" where
  "orderby p r = r\<lparr>odata_orderby := odata_orderby r @ [p]\<rparr>"

definition top_n :: "nat \<Rightarrow> GraphRequest \<Rightarrow> GraphRequest" where
  "top_n n r = r\<lparr>odata_top := Some n\<rparr>"

text \<open>\<open>r.a(x).b(y)\<close> is \<open>chain r [a x, b y]\<close>.\<close>

definition chain :: "'a \<Rightarrow> ('a \<Rightarrow> 'a) list \<Rightarrow> 'a" where
  "chain r fs = foldl (\<lambda>acc f. f acc) r fs"

text \<open>A request as it leaves the client.\<close>

datatype request = Request (verb: verb) (target: GraphRequest) (payload: "body option")

section \<open>The adapter and its surroundings\<close>

record Client =
  accessToken :: string

record MicrosoftCalendarProvider =
  providerId :: provider_id
  accountId :: string
  graphClient :: Client

definition constructor :: "string \<Rightarrow> string \<Rightarrow> MicrosoftCalendarProvider" where
  "constructor token account =
     \<lparr>providerId = Microsoft, accountId = account, graphClient = \<lparr>accessToken = token\<rparr>\<rparr>"

text \<open>
  What an operation can read and change: the adapter object, the requests its client has
  issued so far (oldest first) and the lines written with \<open>console.error\<close>.
\<close>

record world =
  self :: MicrosoftCalendarProvider
  requests :: "request list"
  console :: "(string \<times> js_error) list"

text \<open>
  What the adapter imports and the sources do not hold: the provider's answers
  (\<open>graph\<close>, which may depend on the requests issued before), the mapper functions of
  \<open>./microsoft-calendar/utils\<close>, \<open>assignColor\<close> of \<open>./colors\<close>, the constant of
  \<open>../constants/calendar\<close> and the text form of a \<open>Temporal.Instant\<close>. A mapper may throw.
\<close>

record env =
  graph :: "request list \<Rightarrow> request \<Rightarrow> js_error + json"
  calendarPath :: "string \<Rightarrow> string"
  parseMicrosoftCalendar :: "json \<Rightarrow> string \<Rightarrow> js_error + Calendar"
  parseMicrosoftEvent :: "json \<Rightarrow> string \<Rightarrow> Calendar \<Rightarrow> js_error + CalendarEvent"
  toMicrosoftEvent :: "EventInput \<Rightarrow> js_error + json"
  assignColor :: "nat \<Rightarrow> string"
  MAX_EVENTS_PER_CALENDAR :: nat
  instant_toString :: "int \<Rightarrow> string"

text \<open>
  Modelled from the spec: \<open>eventResponseStatusPath\<close> of \<open>./microsoft-calendar/utils\<close> maps
  the canonical status to Graph's RSVP action (accept, decline, tentativelyAccept). The
  spec names no action for "unknown"; both call sites exclude it before the call, and
  here that case throws.
\<close>

fun eventResponseStatusPath :: "response_status \<Rightarrow> js_error + string" where
  "eventResponseStatusPath Accepted = Inr ''accept''"
| "eventResponseStatusPath Tentative = Inr ''tentativelyAccept''"
| "eventResponseStatusPath Declined = Inr ''decline''"
| "eventResponseStatusPath Unknown = Inl (TypeError ''Invalid status'')"

subsection \<open>Asynchronous code as state passing\<close>

text \<open>
  An \<open>async\<close> body runs its awaits one after the other. A promise is a function of the
  world that settles to a value or to the rejection's error, with the world it leaves.
\<close>

type_synonym 'a promise = "world \<Rightarrow> (js_error + 'a) \<times> world"

definition resolve :: "'a \<Rightarrow> 'a promise" where
  "resolve v w = (Inr v, w)"

definition await :: "'a promise \<Rightarrow> ('a \<Rightarrow> 'b promise) \<Rightarrow> 'b promise" where
  "await p k w = (case p w of (Inl e, w') \<Rightarrow> (Inl e, w') | (Inr v, w') \<Rightarrow> k v w')"

text \<open>A synchronous expression that may throw.\<close>

definition sync :: "js_error + 'a \<Rightarrow> 'a promise" where
  "sync r w = (r, w)"

text \<open>\<open>this.accountId\<close>.\<close>

definition this_accountId :: "string promise" where
  "this_accountId w = (Inr (MicrosoftCalendarProvider.accountId (self w)), w)"

text \<open>Sending records the request, whatever the provider answers.\<close>

definition send :: "env \<Rightarrow> verb \<Rightarrow> body option \<Rightarrow> GraphRequest \<Rightarrow> json promise" where
  "send E v b r w =
     (let q = Request v r b in (graph E (requests w) q, w\<lparr>requests := requests w @ [q]\<rparr>))"

definition get :: "env \<Rightarrow> GraphRequest \<Rightarrow> json promise" where
  "get E = send E GET None"

definition post :: "env \<Rightarrow> body \<Rightarrow> GraphRequest \<Rightarrow> json promise" where
  "post E b = send E POST (Some b)"

definition patch :: "env \<Rightarrow> body \<Rightarrow> GraphRequest \<Rightarrow> json promise" where
  "patch E b = send E PATCH (Some b)"

definition delete :: "env \<Rightarrow> GraphRequest \<Rightarrow> json promise" where
  "delete E = send E DELETE None"

subsection \<open>The error envelope\<close>

definition withErrorHandler ::
  "string \<Rightarrow> 'a promise \<Rightarrow> (string \<times> json) list option \<Rightarrow> world \<Rightarrow> (ProviderError + 'a) \<times> world" where
  "withErrorHandler operation fn context w =
     (case fn w of
        (Inr v, w') \<Rightarrow> (Inr v, w')
      | (Inl error, w') \<Rightarrow>
          (Inl \<lparr>underlyingError = error, operationName = operation, context' = context\<rparr>,
           w'\<lparr>console := console w' @ [(''Failed to '' @ operation @ '':'', error)]\<rparr>))"

subsection \<open>The operations\<close>

text \<open>Each operation is the arrow function it passes to the envelope (\<open>_fn\<close>) and the call
  of the envelope around it, with no third argument.\<close>

definition calendars_fn :: "env \<Rightarrow> Calendar list promise" where
  "calendars_fn E =
     await (get E (api ''/me/calendars?$select=id,name,isDefaultCalendar,canEdit,hexColor,isRemovable,owner,calendarPermissions''))
       (\<lambda>response. await (sync (response_value response))
       (\<lambda>value. await this_accountId
       (\<lambda>account. sync (map_js
          (\<lambda>calendar idx.
             case parseMicrosoftCalendar E calendar account of
               Inl e \<Rightarrow> Inl e
             | Inr parsed \<Rightarrow> Inr (parsed\<lparr>color := assignColor E idx\<rparr>))
          0 value))))"

definition calendars :: "env \<Rightarrow> world \<Rightarrow> (ProviderError + Calendar list) \<times> world" where
  "calendars E = withErrorHandler ''calendars'' (calendars_fn E) None"

definition createCalendar_fn :: "env \<Rightarrow> json \<Rightarrow> Calendar promise" where
  "createCalendar_fn E calendarData =
     await (post E (Payload calendarData) (api ''/me/calendars''))
       (\<lambda>createdCalendar. await this_accountId
       (\<lambda>account. sync (parseMicrosoftCalendar E createdCalendar account)))"

definition createCalendar :: "env \<Rightarrow> json \<Rightarrow> world \<Rightarrow> (ProviderError + Calendar) \<times> world" where
  "createCalendar E calendarData =
     withErrorHandler ''createCalendar'' (createCalendar_fn E calendarData) None"

definition updateCalendar_fn :: "env \<Rightarrow> string \<Rightarrow> json \<Rightarrow> Calendar promise" where
  "updateCalendar_fn E calendarId calendar =
     await (patch E (Payload calendar) (api (calendarPath E calendarId)))
       (\<lambda>updatedCalendar. await this_accountId
       (\<lambda>account. sync (parseMicrosoftCalendar E updatedCalendar account)))"

definition updateCalendar ::
  "env \<Rightarrow> string \<Rightarrow> json \<Rightarrow> world \<Rightarrow> (ProviderError + Calendar) \<times> world" where
  "updateCalendar E calendarId calendar =
     withErrorHandler ''updateCalendar'' (updateCalendar_fn E calendarId calendar) None"

definition deleteCalendar_fn :: "env \<Rightarrow> string \<Rightarrow> unit promise" where
  "deleteCalendar_fn E calendarId =
     await (delete E (api (calendarPath E calendarId))) (\<lambda>_. resolve ())"

definition deleteCalendar :: "env \<Rightarrow> string \<Rightarrow> world \<Rightarrow> (ProviderError + unit) \<times> world" where
  "deleteCalendar E calendarId =
     withErrorHandler ''deleteCalendar'' (deleteCalendar_fn E calendarId) None"

definition events_fn ::
  "env \<Rightarrow> Calendar \<Rightarrow> ZonedDateTime \<Rightarrow> ZonedDateTime \<Rightarrow> string \<Rightarrow> CalendarEvent list promise" where
  "events_fn E calendar timeMin timeMax timeZone =
     (let startTime = instant_toString E (toInstant (withTimeZone timeMin ''UTC''));
          endTime = instant_toString E (toInstant (withTimeZone timeMax ''UTC''))
      in await (get E (chain (api (calendarPath E (Calendar.id calendar) @ ''/events''))
                  [header ''Prefer'' (''outlook.timezone='' @ [CHR 0x22] @ timeZone @ [CHR 0x22]),
                   filter_by (''start/dateTime ge '' @ [CHR 0x27] @ startTime @ [CHR 0x27]
                              @ '' and end/dateTime le '' @ [CHR 0x27] @ endTime @ [CHR 0x27]),
                   orderby ''start/dateTime'',
                   top_n (MAX_EVENTS_PER_CALENDAR E)]))
           (\<lambda>response. await (sync (response_value response))
           (\<lambda>value. await this_accountId
           (\<lambda>account. sync (map_js (\<lambda>event idx. parseMicrosoftEvent E event account calendar)
                                0 value)))))"

definition events ::
  "env \<Rightarrow> Calendar \<Rightarrow> ZonedDateTime \<Rightarrow> ZonedDateTime \<Rightarrow> string \<Rightarrow> world
     \<Rightarrow> (ProviderError + CalendarEvent list) \<times> world" where
  "events E calendar timeMin timeMax timeZone =
     withErrorHandler ''events'' (events_fn E calendar timeMin timeMax timeZone) None"

definition createEvent_fn :: "env \<Rightarrow> Calendar \<Rightarrow> EventInput \<Rightarrow> CalendarEvent promise" where
  "createEvent_fn E calendar event =
     await (sync (toMicrosoftEvent E event))
       (\<lambda>native. await (post E (Payload native)
                          (api (calendarPath E (Calendar.id calendar) @ ''/events'')))
       (\<lambda>createdEvent. await this_accountId
       (\<lambda>account. sync (parseMicrosoftEvent E createdEvent account calendar))))"

definition createEvent ::
  "env \<Rightarrow> Calendar \<Rightarrow> EventInput \<Rightarrow> world \<Rightarrow> (ProviderError + CalendarEvent) \<times> world" where
  "createEvent E calendar event =
     withErrorHandler ''createEvent'' (createEvent_fn E calendar event) None"

definition updateEvent_fn ::
  "env \<Rightarrow> Calendar \<Rightarrow> string \<Rightarrow> EventInput \<Rightarrow> CalendarEvent promise" where
  "updateEvent_fn E calendar eventId event =
     await (sync (toMicrosoftEvent E event))
       (\<lambda>native. await (patch E (Payload native)
                          (api (calendarPath E (Calendar.id calendar) @ ''/events/'' @ eventId)))
       (\<lambda>updatedEvent.
          await (case response event of
                   None \<Rightarrow> resolve ()
                 | Some r \<Rightarrow>
                     if status r \<noteq> Unknown
                     then await (sync (eventResponseStatusPath (status r)))
                            (\<lambda>action. await (post E (Rsvp (comment r) (sendUpdate r))
                                               (api (''/me/events/'' @ eventId @ ''/'' @ action)))
                            (\<lambda>_. resolve ()))
                     else resolve ())
          (\<lambda>_. await this_accountId
          (\<lambda>account. sync (parseMicrosoftEvent E updatedEvent account calendar)))))"

definition updateEvent ::
  "env \<Rightarrow> Calendar \<Rightarrow> string \<Rightarrow> EventInput \<Rightarrow> world \<Rightarrow> (ProviderError + CalendarEvent) \<times> world" where
  "updateEvent E calendar eventId event =
     withErrorHandler ''updateEvent'' (updateEvent_fn E calendar eventId event) None"

definition deleteEvent_fn :: "env \<Rightarrow> string \<Rightarrow> string \<Rightarrow> unit promise" where
  "deleteEvent_fn E calendarId eventId =
     await (delete E (api (calendarPath E calendarId @ ''/events/'' @ eventId)))
       (\<lambda>_. resolve ())"

definition deleteEvent ::
  "env \<Rightarrow> string \<Rightarrow> string \<Rightarrow> world \<Rightarrow> (ProviderError + unit) \<times> world" where
  "deleteEvent E calendarId eventId =
     withErrorHandler ''deleteEvent'' (deleteEvent_fn E calendarId eventId) None"

definition responseToEvent_fn ::
  "env \<Rightarrow> string \<Rightarrow> string \<Rightarrow> ResponseToEventInput \<Rightarrow> unit promise" where
  "responseToEvent_fn E calendarId eventId r =
     (if status r = Unknown then resolve ()
      else await (sync (eventResponseStatusPath (status r)))
             (\<lambda>action. await (post E (Rsvp (comment r) (sendUpdate r))
                                (api (''/me/events/'' @ eventId @ ''/'' @ action)))
             (\<lambda>_. resolve ())))"

definition responseToEvent ::
  "env \<Rightarrow> string \<Rightarrow> string \<Rightarrow> ResponseToEventInput \<Rightarrow> world \<Rightarrow> (ProviderError + unit) \<times> world" where
  "responseToEvent E calendarId eventId r =
     withErrorHandler ''responseToEvent'' (responseToEvent_fn E calendarId eventId r) None"

section \<open>A provider to run the operations against\<close>

text \<open>
  The mapper functions are not among the sources, and the operations above take them as
  parameters. The two below are sample mappers for the runs that follow, nothing more:
  the theorems about the operations hold for every mapper. The calendar one keeps a
  native \<open>hexColor\<close> that is present and not empty and takes \<open>assigned\<close> otherwise; it
  reads id, name, \<open>isDefaultCalendar\<close>, \<open>canEdit\<close> and \<open>calendarPermissions\<close> from the native
  calendar, leaves the owner out (the canonical calendar has no field for it) and fills
  \<open>accountId\<close> with the account it is passed. The event one keeps the native event in
  \<open>raw\<close>.
\<close>

text \<open>\<open>x as string\<close> of a property that is not a string: the empty string stands for it.\<close>

definition as_string :: "json option \<Rightarrow> string" where
  "as_string v = (case v of Some (JStr s) \<Rightarrow> s | _ \<Rightarrow> [])"

definition sample_parseMicrosoftCalendar :: "string \<Rightarrow> json \<Rightarrow> string \<Rightarrow> js_error + Calendar" where
  "sample_parseMicrosoftCalendar assigned calendar account =
     Inr \<lparr>Calendar.id = as_string (property calendar ''id''),
          accountId = account,
          providerId = Microsoft,
          name = as_string (property calendar ''name''),
          color = (case property calendar ''hexColor'' of
                     Some (JStr c) \<Rightarrow> if c = [] then assigned else c
                   | _ \<Rightarrow> assigned),
          isDefault = (property calendar ''isDefaultCalendar'' = Some (JBool True)),
          isReadOnly = (property calendar ''canEdit'' \<noteq> Some (JBool True)),
          permissions = (case property calendar ''calendarPermissions'' of
                           Some ps \<Rightarrow> ps
                         | None \<Rightarrow> JNull)\<rparr>"

definition sample_parseMicrosoftEvent :: "json \<Rightarrow> string \<Rightarrow> Calendar \<Rightarrow> js_error + CalendarEvent" where
  "sample_parseMicrosoftEvent event account calendar =
     Inr \<lparr>CalendarEvent.id = as_string (property event ''id''),
          calendarId' = Calendar.id calendar,
          accountId = account,
          providerId = Microsoft,
          raw = event\<rparr>"

text \<open>One listed calendar with a native color, one stored event; \<open>rsvp_ok\<close> tells whether
  the RSVP actions succeed.\<close>

definition listed_calendar :: json where
  "listed_calendar =
     JObj [(''id'', JStr ''c1''), (''name'', JStr ''Work''), (''isDefaultCalendar'', JBool True),
           (''canEdit'', JBool True), (''hexColor'', JStr ''#ff0000'')]"

definition stored_event :: json where
  "stored_event = JObj [(''id'', JStr ''evt1''), (''subject'', JStr ''Standup'')]"

definition sample_graph :: "bool \<Rightarrow> request list \<Rightarrow> request \<Rightarrow> js_error + json" where
  "sample_graph rsvp_ok history q =
     (case verb q of
        GET \<Rightarrow> if path (target q) = ''/me/calendars/c1/events''
               then Inr (JObj [(''value'', JArr [stored_event])])
               else Inr (JObj [(''value'', JArr [listed_calendar])])
      | PATCH \<Rightarrow> Inr stored_event
      | POST \<Rightarrow> if rsvp_ok then Inr JNull else Inl (GraphError 403 ''Forbidden'')
      | DELETE \<Rightarrow> Inr JNull)"

definition offline_graph :: "request list \<Rightarrow> request \<Rightarrow> js_error + json" where
  "offline_graph history q = Inl (GraphError 503 ''Service unavailable'')"

definition sample_env :: "(request list \<Rightarrow> request \<Rightarrow> js_error + json) \<Rightarrow> env" where
  "sample_env g =
     \<lparr>graph = g,
      calendarPath = (\<lambda>calendarId. ''/me/calendars/'' @ calendarId),
      parseMicrosoftCalendar = sample_parseMicrosoftCalendar ''#000000'',
      parseMicrosoftEvent = sample_parseMicrosoftEvent,
      toMicrosoftEvent = (\<lambda>event. Inr (rest event)),
      assignColor = (\<lambda>idx. [''#fbbc05'', ''#34a853''] ! (idx mod 2)),
      MAX_EVENTS_PER_CALENDAR = 250,
      instant_toString = (\<lambda>ns. as_string (map_of
         [(1704067200000000000, JStr ''2024-01-01T00:00:00Z''),
          (1706745540000000000, JStr ''2024-01-31T23:59:00Z'')] ns))\<rparr>"

definition sample_world :: world where
  "sample_world = \<lparr>self = constructor ''token'' ''acct-1'', requests = [], console = []\<rparr>"

definition sample_calendar :: Calendar where
  "sample_calendar =
     \<lparr>Calendar.id = ''c1'', accountId = ''acct-1'', providerId = Microsoft, name = ''Work'',
      color = ''#ff0000'', isDefault = True, isReadOnly = False, permissions = JNull\<rparr>"

text \<open>What the operations' theorems speak of: the RSVP action request of an event, the
  requests a response asks for, the PATCH of an event, an operation that is its arrow
  function inside the error envelope, an operation whose errors carry no context map, and
  the requests issued between two worlds.\<close>

definition rsvp_post :: "string \<Rightarrow> string \<Rightarrow> ResponseToEventInput \<Rightarrow> request" where
  "rsvp_post eventId action r =
     Request POST (api (''/me/events/'' @ eventId @ ''/'' @ action))
       (Some (Rsvp (comment r) (sendUpdate r)))"

definition rsvp_posts :: "string \<Rightarrow> ResponseToEventInput \<Rightarrow> request list" where
  "rsvp_posts eventId r =
     (case status r of
        Accepted \<Rightarrow> [rsvp_post eventId ''accept'' r]
      | Tentative \<Rightarrow> [rsvp_post eventId ''tentativelyAccept'' r]
      | Declined \<Rightarrow> [rsvp_post eventId ''decline'' r]
      | Unknown \<Rightarrow> [])"

definition event_patch :: "env \<Rightarrow> Calendar \<Rightarrow> string \<Rightarrow> json \<Rightarrow> request" where
  "event_patch E calendar eventId native =
     Request PATCH (api (calendarPath E (Calendar.id calendar) @ ''/events/'' @ eventId))
       (Some (Payload native))"

definition enveloped ::
  "string \<Rightarrow> 'a promise \<Rightarrow> (world \<Rightarrow> (ProviderError + 'a) \<times> world) \<Rightarrow> bool" where
  "enveloped operation fn op \<longleftrightarrow>
     (\<forall>w. case fn w of
            (Inr v, w') \<Rightarrow> op w = (Inr v, w')
          | (Inl e, w') \<Rightarrow>
              op w = (Inl \<lparr>underlyingError = e, operationName = operation, context' = None\<rparr>,
                      w'\<lparr>console := console w' @ [(''Failed to '' @ operation @ '':'', e)]\<rparr>))"

definition context_absent :: "(world \<Rightarrow> (ProviderError + 'a) \<times> world) \<Rightarrow> bool" where
  "context_absent op \<longleftrightarrow> (\<forall>w pe w'. op w = (Inl pe, w') \<longrightarrow> context' pe = None)"

definition issued :: "world \<Rightarrow> world \<Rightarrow> request list" where
  "issued w w' = drop (length (requests w)) (requests w')"

definition accept_input :: ResponseToEventInput where
  "accept_input = \<lparr>status = Accepted, comment = None, sendUpdate = Some True\<rparr>"

section \<open>Running the operations\<close>

lemmas run_defs = await_def sync_def resolve_def send_def get_def post_def patch_def delete_def
  this_accountId_def withErrorHandler_def

lemma map_js_nth:
  "map_js f i xs = Inr ys \<Longrightarrow>
     length ys = length xs \<and> (\<forall>j<length xs. f (xs ! j) (i + j) = Inr (ys ! j))"
proof (induction xs arbitrary: i ys)
  case Nil
  then show ?case by simp
next
  case (Cons x xs)
  from Cons.prems obtain y ys' where fx: "f x i = Inr y"
    and rec: "map_js f (Suc i) xs = Inr ys'" and ys: "ys = y # ys'"
    by (auto split: sum.splits)
  from Cons.IH[OF rec] have len: "length ys' = length xs"
    and nth: "\<forall>j<length xs. f (xs ! j) (Suc i + j) = Inr (ys' ! j)" by simp_all
  show ?case
  proof (intro conjI allI impI)
    show "length ys = length (x # xs)" using len ys by simp
  next
    fix j assume "j < length (x # xs)"
    then show "f ((x # xs) ! j) (i + j) = Inr (ys ! j)"
      using fx nth ys by (cases j) simp_all
  qed
qed

lemma map_js_nth0:
  "map_js f 0 xs = Inr ys \<Longrightarrow>
     length ys = length xs \<and> (\<forall>j<length xs. f (xs ! j) j = Inr (ys ! j))"
  using map_js_nth[of f 0 xs ys] by simp

lemma withErrorHandler_Inr:
  "withErrorHandler operation fn c w = (Inr v, w') \<longleftrightarrow> fn w = (Inr v, w')"
  by (auto simp: withErrorHandler_def split: sum.splits prod.splits)

lemma withErrorHandler_requests:
  "requests (snd (withErrorHandler operation fn c w)) = requests (snd (fn w))"
  by (simp add: withErrorHandler_def split: sum.splits prod.splits)

lemma withErrorHandler_enveloped:
  "enveloped operation fn (withErrorHandler operation fn None)"
  by (simp add: enveloped_def withErrorHandler_def split: prod.splits sum.splits)

lemma withErrorHandler_context_absent: "context_absent (withErrorHandler operation fn None)"
  by (auto simp: context_absent_def withErrorHandler_def split: prod.splits sum.splits)

lemma calendars_fn_Inr:
  assumes "calendars_fn E w = (Inr cs, w')"
  shows "\<exists>response listed.
           graph E (requests w) (Request GET (api ''/me/calendars?$select=id,name,isDefaultCalendar,canEdit,hexColor,isRemovable,owner,calendarPermissions'') None) = Inr response
         \<and> response_value response = Inr listed
         \<and> map_js (\<lambda>calendar idx.
             case parseMicrosoftCalendar E calendar (MicrosoftCalendarProvider.accountId (self w)) of
               Inl e \<Rightarrow> Inl e
             | Inr parsed \<Rightarrow> Inr (parsed\<lparr>color := assignColor E idx\<rparr>)) 0 listed = Inr cs"
  using assms
  by (auto simp: calendars_fn_def run_defs Let_def split: sum.splits prod.splits)

lemma eventResponseStatusPath_posts:
  "status r \<noteq> Unknown \<Longrightarrow>
     \<exists>action. eventResponseStatusPath (status r) = Inr action \<and> rsvp_posts eventId r = [rsvp_post eventId action r]"
  by (cases "status r") (simp_all add: rsvp_posts_def)

lemma rsvp_posts_single:
  assumes "rsvp_posts eventId r = [q]"
  shows "status r \<noteq> Unknown \<and> (\<exists>action. eventResponseStatusPath (status r) = Inr action \<and> q = rsvp_post eventId action r)"
  using assms by (cases "status r") (auto simp: rsvp_posts_def)

lemma updateEvent_fn_requests:
  "requests (snd (updateEvent_fn E calendar eventId event w)) =
     requests w @
     (case toMicrosoftEvent E event of
        Inl e \<Rightarrow> []
      | Inr native \<Rightarrow>
          event_patch E calendar eventId native #
          (case graph E (requests w) (event_patch E calendar eventId native) of
             Inl e \<Rightarrow> []
           | Inr updatedEvent \<Rightarrow>
               (case response event of None \<Rightarrow> [] | Some r \<Rightarrow> rsvp_posts eventId r)))"
proof (cases "toMicrosoftEvent E event")
  case (Inl e)
  then show ?thesis by (simp add: updateEvent_fn_def run_defs)
next
  case native: (Inr native)
  show ?thesis
  proof (cases "graph E (requests w) (event_patch E calendar eventId native)")
    case (Inl e)
    with native show ?thesis
      by (simp add: updateEvent_fn_def run_defs event_patch_def Let_def)
  next
    case patched: (Inr updatedEvent)
    show ?thesis
    proof (cases "response event")
      case None
      with native patched show ?thesis
        by (simp add: updateEvent_fn_def run_defs event_patch_def Let_def)
    next
      case (Some r)
      show ?thesis
      proof (cases "status r = Unknown")
        case True
        with native patched Some show ?thesis
          by (simp add: updateEvent_fn_def run_defs event_patch_def Let_def rsvp_posts_def)
      next
        case False
        from eventResponseStatusPath_posts[OF False, of eventId] obtain action where
          "eventResponseStatusPath (status r) = Inr action"
          "rsvp_posts eventId r = [rsvp_post eventId action r]" by blast
        with native patched Some False show ?thesis
          by (simp add: updateEvent_fn_def run_defs event_patch_def Let_def rsvp_post_def
                   split: sum.splits prod.splits)
      qed
    qed
  qed
qed

lemma updateEvent_fn_rsvp_fails:
  assumes native: "toMicrosoftEvent E event = Inr native"
    and patched: "graph E (requests w) (event_patch E calendar eventId native) = Inr updatedEvent"
    and r: "response event = Some r"
    and q: "rsvp_posts eventId r = [q]"
    and e: "graph E (requests w @ [event_patch E calendar eventId native]) q = Inl e"
  shows "updateEvent_fn E calendar eventId event w =
           (Inl e, w\<lparr>requests := requests w @ [event_patch E calendar eventId native, q]\<rparr>)"
proof -
  from rsvp_posts_single[OF q] obtain action where
    s: "status r \<noteq> Unknown" and a: "eventResponseStatusPath (status r) = Inr action"
    and qa: "q = rsvp_post eventId action r" by blast
  from e have e': "graph E (requests w @ [Request PATCH (api (calendarPath E (Calendar.id calendar) @ ''/events/'' @ eventId)) (Some (Payload native))])
      (Request POST (api (''/me/events/'' @ eventId @ ''/'' @ action)) (Some (Rsvp (comment r) (sendUpdate r)))) = Inl e"
    by (simp add: qa rsvp_post_def event_patch_def)
  from patched have p': "graph E (requests w) (Request PATCH (api (calendarPath E (Calendar.id calendar) @ ''/events/'' @ eventId)) (Some (Payload native))) = Inr updatedEvent"
    by (simp add: event_patch_def)
  from native p' r s a e' show ?thesis
    by (simp add: updateEvent_fn_def run_defs Let_def qa rsvp_post_def event_patch_def)
qed

lemma updateEvent_fn_Inr:
  assumes "updateEvent_fn E calendar eventId event w = (Inr updated, w')"
  shows "\<exists>native patched.
           toMicrosoftEvent E event = Inr native
         \<and> graph E (requests w) (event_patch E calendar eventId native) = Inr patched
         \<and> parseMicrosoftEvent E patched (MicrosoftCalendarProvider.accountId (self w)) calendar = Inr updated"
  using assms
  by (auto simp: updateEvent_fn_def run_defs Let_def event_patch_def
      split: sum.splits prod.splits option.splits if_splits)

lemma events_fn_requests:
  "requests (snd (events_fn E calendar timeMin timeMax timeZone w)) =
     requests w @
     [Request GET
        \<lparr>path = calendarPath E (Calendar.id calendar) @ ''/events'',
         headers = [(''Prefer'', ''outlook.timezone='' @ [CHR 0x22] @ timeZone @ [CHR 0x22])],
         odata_filter = Some (''start/dateTime ge '' @ [CHR 0x27]
                               @ instant_toString E (epochNanoseconds timeMin) @ [CHR 0x27]
                               @ '' and end/dateTime le '' @ [CHR 0x27]
                               @ instant_toString E (epochNanoseconds timeMax) @ [CHR 0x27]),
         odata_orderby = [''start/dateTime''],
         odata_top = Some (MAX_EVENTS_PER_CALENDAR E)\<rparr>
        None]"
  by (simp add: events_fn_def run_defs Let_def chain_def api_def header_def filter_by_def
      orderby_def top_n_def withTimeZone_def toInstant_def split: sum.splits prod.splits)

lemma events_zone_irrelevant:
  "events E calendar (timeMin\<lparr>timeZoneId := z1\<rparr>) (timeMax\<lparr>timeZoneId := z2\<rparr>) timeZone w =
   events E calendar timeMin timeMax timeZone w"
  by (simp add: events_def events_fn_def withTimeZone_def toInstant_def)

subsection \<open>Runs against the sample provider\<close>

lemma sample_calendars:
  "calendars (sample_env (sample_graph True)) sample_world =
     (Inr [\<lparr>Calendar.id = ''c1'', accountId = ''acct-1'', providerId = Microsoft, name = ''Work'',
            color = ''#fbbc05'', isDefault = True, isReadOnly = False, permissions = JNull\<rparr>],
      sample_world\<lparr>requests := [Request GET (api ''/me/calendars?$select=id,name,isDefaultCalendar,canEdit,hexColor,isRemovable,owner,calendarPermissions'') None]\<rparr>)"
  by (simp add: calendars_def calendars_fn_def run_defs sample_env_def sample_graph_def
      sample_world_def constructor_def response_value_def listed_calendar_def
      sample_parseMicrosoftCalendar_def as_string_def api_def)

lemma offline_calendars_fn:
  "calendars_fn (sample_env offline_graph) sample_world =
     (Inl (GraphError 503 ''Service unavailable''),
      sample_world\<lparr>requests := [Request GET (api ''/me/calendars?$select=id,name,isDefaultCalendar,canEdit,hexColor,isRemovable,owner,calendarPermissions'') None]\<rparr>)"
  by (simp add: calendars_fn_def run_defs sample_env_def offline_graph_def sample_world_def Let_def)

lemma offline_deleteEvent:
  "deleteEvent (sample_env offline_graph) ''c1'' ''evt1'' sample_world =
     (Inl \<lparr>underlyingError = GraphError 503 ''Service unavailable'', operationName = ''deleteEvent'',
           context' = None\<rparr>,
      sample_world\<lparr>requests := [Request DELETE (api ''/me/calendars/c1/events/evt1'') None],
        console := [(''Failed to deleteEvent:'', GraphError 503 ''Service unavailable'')]\<rparr>)"
  by (simp add: deleteEvent_def deleteEvent_fn_def run_defs sample_env_def offline_graph_def
      sample_world_def Let_def)

lemma sample_rsvp_fails:
  "updateEvent (sample_env (sample_graph False)) sample_calendar ''evt1''
     \<lparr>response = Some accept_input, rest = JNull\<rparr> sample_world =
   (Inl \<lparr>underlyingError = GraphError 403 ''Forbidden'', operationName = ''updateEvent'', context' = None\<rparr>,
    sample_world\<lparr>requests := [Request PATCH (api ''/me/calendars/c1/events/evt1'') (Some (Payload JNull)),
                              Request POST (api ''/me/events/evt1/accept'') (Some (Rsvp None (Some True)))],
      console := [(''Failed to updateEvent:'', GraphError 403 ''Forbidden'')]\<rparr>)"
  by (simp add: updateEvent_def updateEvent_fn_def run_defs sample_env_def sample_graph_def
      sample_world_def sample_calendar_def accept_input_def Let_def)

lemma sample_update:
  "updateEvent (sample_env (sample_graph True)) sample_calendar ''evt1''
     \<lparr>response = Some accept_input, rest = JNull\<rparr> sample_world =
   (Inr \<lparr>CalendarEvent.id = ''evt1'', calendarId' = ''c1'', accountId = ''acct-1'',
         providerId = Microsoft, raw = stored_event\<rparr>,
    sample_world\<lparr>requests := [Request PATCH (api ''/me/calendars/c1/events/evt1'') (Some (Payload JNull)),
                              Request POST (api ''/me/events/evt1/accept'') (Some (Rsvp None (Some True)))]\<rparr>)"
  by (simp add: updateEvent_def updateEvent_fn_def run_defs sample_env_def sample_graph_def
      sample_world_def sample_calendar_def accept_input_def Let_def sample_parseMicrosoftEvent_def
      constructor_def stored_event_def as_string_def)

section \<open>Listing calendars\<close>

text \<open>
  C1, as the code has it. Every calendar that \<open>calendars\<close> returns is the mapper's result
  for the calendar listed at the same position with its color overwritten by
  \<open>assignColor idx\<close>: the returned color is the index-based one whether or not the
  provider supplied a native \<open>hexColor\<close>.
\<close>

theorem calendars_color_assigned:
  assumes "calendars E w = (Inr cs, w')"
  shows "\<exists>response listed.
           graph E (requests w) (Request GET (api ''/me/calendars?$select=id,name,isDefaultCalendar,canEdit,hexColor,isRemovable,owner,calendarPermissions'') None) = Inr response
         \<and> response_value response = Inr listed
         \<and> length cs = length listed
         \<and> (\<forall>idx<length listed. \<exists>parsed.
               parseMicrosoftCalendar E (listed ! idx) (MicrosoftCalendarProvider.accountId (self w)) = Inr parsed
             \<and> cs ! idx = parsed\<lparr>color := assignColor E idx\<rparr>
             \<and> Calendar.color (cs ! idx) = assignColor E idx)"
proof -
  from assms have "calendars_fn E w = (Inr cs, w')"
    by (simp add: calendars_def withErrorHandler_Inr)
  from calendars_fn_Inr[OF this] obtain response listed where
    g: "graph E (requests w) (Request GET (api ''/me/calendars?$select=id,name,isDefaultCalendar,canEdit,hexColor,isRemovable,owner,calendarPermissions'') None) = Inr response"
    and v: "response_value response = Inr listed"
    and m: "map_js (\<lambda>calendar idx.
             case parseMicrosoftCalendar E calendar (MicrosoftCalendarProvider.accountId (self w)) of
               Inl e \<Rightarrow> Inl e
             | Inr parsed \<Rightarrow> Inr (parsed\<lparr>color := assignColor E idx\<rparr>)) 0 listed = Inr cs"
    by blast
  from map_js_nth0[OF m] have len: "length cs = length listed"
    and nth: "\<forall>j<length listed.
       (case parseMicrosoftCalendar E (listed ! j) (MicrosoftCalendarProvider.accountId (self w)) of
               Inl e \<Rightarrow> Inl e
             | Inr parsed \<Rightarrow> Inr (parsed\<lparr>color := assignColor E j\<rparr>)) = Inr (cs ! j)"
    by simp_all
  have "\<forall>idx<length listed. \<exists>parsed.
               parseMicrosoftCalendar E (listed ! idx) (MicrosoftCalendarProvider.accountId (self w)) = Inr parsed
             \<and> cs ! idx = parsed\<lparr>color := assignColor E idx\<rparr>
             \<and> Calendar.color (cs ! idx) = assignColor E idx"
  proof (intro allI impI)
    fix idx assume "idx < length listed"
    with nth have "(case parseMicrosoftCalendar E (listed ! idx) (MicrosoftCalendarProvider.accountId (self w)) of
               Inl e \<Rightarrow> Inl e
             | Inr parsed \<Rightarrow> Inr (parsed\<lparr>color := assignColor E idx\<rparr>)) = Inr (cs ! idx)"
      by blast
    then obtain parsed where
      "parseMicrosoftCalendar E (listed ! idx) (MicrosoftCalendarProvider.accountId (self w)) = Inr parsed"
      and "cs ! idx = parsed\<lparr>color := assignColor E idx\<rparr>"
      by (cases "parseMicrosoftCalendar E (listed ! idx) (MicrosoftCalendarProvider.accountId (self w))") auto
    then show "\<exists>parsed.
               parseMicrosoftCalendar E (listed ! idx) (MicrosoftCalendarProvider.accountId (self w)) = Inr parsed
             \<and> cs ! idx = parsed\<lparr>color := assignColor E idx\<rparr>
             \<and> Calendar.color (cs ! idx) = assignColor E idx"
      by simp
  qed
  with g v len show ?thesis by blast
qed

text \<open>
  C1, as the spec states it, fails: the listed calendar carries the native color
  \<open>#ff0000\<close>, the mapper keeps it, and \<open>calendars\<close> returns the palette color of index 0.
\<close>

theorem calendars_native_color_counterexample:
  "graph (sample_env (sample_graph True)) (requests sample_world)
     (Request GET (api ''/me/calendars?$select=id,name,isDefaultCalendar,canEdit,hexColor,isRemovable,owner,calendarPermissions'') None) =
       Inr (JObj [(''value'', JArr [listed_calendar])])
   \<and> property listed_calendar ''hexColor'' = Some (JStr ''#ff0000'')
   \<and> fst (calendars (sample_env (sample_graph True)) sample_world) =
       Inr [\<lparr>Calendar.id = ''c1'', accountId = ''acct-1'', providerId = Microsoft, name = ''Work'',
            color = ''#fbbc05'', isDefault = True, isReadOnly = False, permissions = JNull\<rparr>]"
proof -
  have "graph (sample_env (sample_graph True)) (requests sample_world)
     (Request GET (api ''/me/calendars?$select=id,name,isDefaultCalendar,canEdit,hexColor,isRemovable,owner,calendarPermissions'') None) =
       Inr (JObj [(''value'', JArr [listed_calendar])])"
    by (simp add: sample_env_def sample_graph_def api_def)
  moreover have "property listed_calendar ''hexColor'' = Some (JStr ''#ff0000'')"
    by (simp add: listed_calendar_def)
  ultimately show ?thesis
    by (simp add: sample_calendars)
qed

theorem calendars_color_assigned_witness:
  "Calendar.color (hd (projr (fst (calendars (sample_env (sample_graph True)) sample_world)))) = ''#fbbc05''"
  using calendars_color_assigned[of "sample_env (sample_graph True)" sample_world, OF sample_calendars]
  by (simp add: sample_calendars)

section \<open>The error envelope\<close>

text \<open>
  C3. Each of the nine public operations is its arrow function inside the envelope: when
  the function settles to a value the operation returns that value and the same world;
  when it throws or rejects with \<open>e\<close> the operation rejects with the one \<open>ProviderError\<close> that
  carries \<open>e\<close> and the operation's name, after one \<open>console.error\<close> line, and in the world
  a single run of the function leaves: no request is issued again and no default value is
  returned.
\<close>

theorem operations_enveloped:
  "enveloped ''calendars'' (calendars_fn E) (calendars E)
   \<and> enveloped ''createCalendar'' (createCalendar_fn E calendarData) (createCalendar E calendarData)
   \<and> enveloped ''updateCalendar'' (updateCalendar_fn E calendarId patchData)
         (updateCalendar E calendarId patchData)
   \<and> enveloped ''deleteCalendar'' (deleteCalendar_fn E calendarId) (deleteCalendar E calendarId)
   \<and> enveloped ''events'' (events_fn E calendar timeMin timeMax timeZone)
         (events E calendar timeMin timeMax timeZone)
   \<and> enveloped ''createEvent'' (createEvent_fn E calendar event) (createEvent E calendar event)
   \<and> enveloped ''updateEvent'' (updateEvent_fn E calendar eventId event)
         (updateEvent E calendar eventId event)
   \<and> enveloped ''deleteEvent'' (deleteEvent_fn E calendarId eventId) (deleteEvent E calendarId eventId)
   \<and> enveloped ''responseToEvent'' (responseToEvent_fn E calendarId eventId r)
         (responseToEvent E calendarId eventId r)"
  unfolding calendars_def createCalendar_def updateCalendar_def deleteCalendar_def events_def
    createEvent_def updateEvent_def deleteEvent_def responseToEvent_def
  by (intro conjI withErrorHandler_enveloped)

theorem operations_enveloped_witness:
  "calendars (sample_env offline_graph) sample_world =
     (Inl \<lparr>underlyingError = GraphError 503 ''Service unavailable'', operationName = ''calendars'',
           context' = None\<rparr>,
      sample_world\<lparr>requests := [Request GET (api ''/me/calendars?$select=id,name,isDefaultCalendar,canEdit,hexColor,isRemovable,owner,calendarPermissions'') None],
        console := [(''Failed to calendars:'', GraphError 503 ''Service unavailable'')]\<rparr>)"
proof -
  have "enveloped ''calendars'' (calendars_fn (sample_env offline_graph)) (calendars (sample_env offline_graph))"
    using operations_enveloped[where E = "sample_env offline_graph"] by simp
  then have "case calendars_fn (sample_env offline_graph) sample_world of
            (Inr v, w') \<Rightarrow> calendars (sample_env offline_graph) sample_world = (Inr v, w')
          | (Inl e, w') \<Rightarrow>
              calendars (sample_env offline_graph) sample_world =
                (Inl \<lparr>underlyingError = e, operationName = ''calendars'', context' = None\<rparr>,
                      w'\<lparr>console := console w' @ [(''Failed to '' @ ''calendars'' @ '':'', e)]\<rparr>)"
    unfolding enveloped_def by (rule spec)
  then have "calendars (sample_env offline_graph) sample_world =
      (Inl \<lparr>underlyingError = GraphError 503 ''Service unavailable'', operationName = ''calendars'',
            context' = None\<rparr>,
       sample_world\<lparr>requests := [Request GET (api ''/me/calendars?$select=id,name,isDefaultCalendar,canEdit,hexColor,isRemovable,owner,calendarPermissions'') None],
         console := console sample_world @ [(''Failed to calendars:'', GraphError 503 ''Service unavailable'')]\<rparr>)"
    by (simp add: offline_calendars_fn)
  then show ?thesis
    by (simp add: sample_world_def)
qed

text \<open>
  C10. No operation passes the envelope's third argument, so every \<open>ProviderError\<close> that a
  public operation rejects with has no context map.
\<close>

theorem operations_context_absent:
  "context_absent (calendars E)
   \<and> context_absent (createCalendar E calendarData)
   \<and> context_absent (updateCalendar E calendarId patchData)
   \<and> context_absent (deleteCalendar E calendarId)
   \<and> context_absent (events E calendar timeMin timeMax timeZone)
   \<and> context_absent (createEvent E calendar event)
   \<and> context_absent (updateEvent E calendar eventId event)
   \<and> context_absent (deleteEvent E calendarId eventId)
   \<and> context_absent (responseToEvent E calendarId eventId r)"
  unfolding calendars_def createCalendar_def updateCalendar_def deleteCalendar_def events_def
    createEvent_def updateEvent_def deleteEvent_def responseToEvent_def
  by (intro conjI withErrorHandler_context_absent)

theorem operations_context_absent_witness:
  "\<exists>pe w'. deleteEvent (sample_env offline_graph) ''c1'' ''evt1'' sample_world = (Inl pe, w')
          \<and> context' pe = None"
proof -
  have "context_absent (deleteEvent (sample_env offline_graph) ''c1'' ''evt1'')"
    using operations_context_absent[where E = "sample_env offline_graph" and calendarId = "''c1''"
        and eventId = "''evt1''"] by simp
  then have "context' pe = None"
    if "deleteEvent (sample_env offline_graph) ''c1'' ''evt1'' sample_world = (Inl pe, w')" for pe w'
    using that unfolding context_absent_def by blast
  with offline_deleteEvent show ?thesis by blast
qed

section \<open>Listing events\<close>

text \<open>
  C5. \<open>events\<close> issues one GET on the calendar's events: the filter bounds the start from
  below by the instant of \<open>timeMin\<close> and the end from above by the instant of \<open>timeMax\<close>,
  both in the text form of an instant (UTC); the \<open>Prefer\<close> header asks for \<open>timeZone\<close>;
  the order is by start, ascending by default; the count is capped by
  \<open>MAX_EVENTS_PER_CALENDAR\<close>. The zones of \<open>timeMin\<close> and \<open>timeMax\<close> play no part.
\<close>

theorem events_query:
  "requests (snd (events E calendar timeMin timeMax timeZone w)) =
     requests w @
     [Request GET
        \<lparr>path = calendarPath E (Calendar.id calendar) @ ''/events'',
         headers = [(''Prefer'', ''outlook.timezone='' @ [CHR 0x22] @ timeZone @ [CHR 0x22])],
         odata_filter = Some (''start/dateTime ge '' @ [CHR 0x27]
                               @ instant_toString E (epochNanoseconds timeMin) @ [CHR 0x27]
                               @ '' and end/dateTime le '' @ [CHR 0x27]
                               @ instant_toString E (epochNanoseconds timeMax) @ [CHR 0x27]),
         odata_orderby = [''start/dateTime''],
         odata_top = Some (MAX_EVENTS_PER_CALENDAR E)\<rparr>
        None]
   \<and> events E calendar (timeMin\<lparr>timeZoneId := z1\<rparr>) (timeMax\<lparr>timeZoneId := z2\<rparr>) timeZone w =
       events E calendar timeMin timeMax timeZone w"
proof (intro conjI)
  show "requests (snd (events E calendar timeMin timeMax timeZone w)) =
     requests w @
     [Request GET
        \<lparr>path = calendarPath E (Calendar.id calendar) @ ''/events'',
         headers = [(''Prefer'', ''outlook.timezone='' @ [CHR 0x22] @ timeZone @ [CHR 0x22])],
         odata_filter = Some (''start/dateTime ge '' @ [CHR 0x27]
                               @ instant_toString E (epochNanoseconds timeMin) @ [CHR 0x27]
                               @ '' and end/dateTime le '' @ [CHR 0x27]
                               @ instant_toString E (epochNanoseconds timeMax) @ [CHR 0x27]),
         odata_orderby = [''start/dateTime''],
         odata_top = Some (MAX_EVENTS_PER_CALENDAR E)\<rparr>
        None]"
    unfolding events_def withErrorHandler_requests by (rule events_fn_requests)
  show "events E calendar (timeMin\<lparr>timeZoneId := z1\<rparr>) (timeMax\<lparr>timeZoneId := z2\<rparr>) timeZone w =
       events E calendar timeMin timeMax timeZone w"
    by (rule events_zone_irrelevant)
qed

theorem events_query_witness:
  "requests (snd (events (sample_env (sample_graph True)) sample_calendar
      \<lparr>epochNanoseconds = 1704067200000000000, timeZoneId = ''Europe/Paris''\<rparr>
      \<lparr>epochNanoseconds = 1706745540000000000, timeZoneId = ''Asia/Tokyo''\<rparr>
      ''America/New_York'' sample_world)) =
     [Request GET
        \<lparr>path = ''/me/calendars/c1/events'',
         headers = [(''Prefer'', ''outlook.timezone='' @ [CHR 0x22] @ ''America/New_York'' @ [CHR 0x22])],
         odata_filter = Some (''start/dateTime ge '' @ [CHR 0x27] @ ''2024-01-01T00:00:00Z'' @ [CHR 0x27]
                               @ '' and end/dateTime le '' @ [CHR 0x27] @ ''2024-01-31T23:59:00Z''
                               @ [CHR 0x27]),
         odata_orderby = [''start/dateTime''],
         odata_top = Some 250\<rparr>
        None]"
  using events_query[where E = "sample_env (sample_graph True)" and calendar = sample_calendar
      and timeMin = "\<lparr>epochNanoseconds = 1704067200000000000, timeZoneId = ''Europe/Paris''\<rparr>"
      and timeMax = "\<lparr>epochNanoseconds = 1706745540000000000, timeZoneId = ''Asia/Tokyo''\<rparr>"
      and timeZone = "''America/New_York''" and w = sample_world]
  by (simp add: sample_env_def sample_world_def sample_calendar_def as_string_def)

section \<open>Updating an event\<close>

text \<open>
  C2. The requests of \<open>updateEvent\<close>, in order: the PATCH of the event; then, only when the
  PATCH resolved and the input carries a response whose status is not "unknown", the one
  RSVP POST. A POST is among them exactly when the PATCH succeeded and the response is
  populated and not "unknown"; after a failed PATCH there is none.
\<close>

theorem updateEvent_rsvp_sequencing:
  "requests (snd (updateEvent E calendar eventId event w)) =
     requests w @
     (case toMicrosoftEvent E event of
        Inl e \<Rightarrow> []
      | Inr native \<Rightarrow>
          event_patch E calendar eventId native #
          (case graph E (requests w) (event_patch E calendar eventId native) of
             Inl e \<Rightarrow> []
           | Inr updatedEvent \<Rightarrow>
               (case response event of None \<Rightarrow> [] | Some r \<Rightarrow> rsvp_posts eventId r)))
   \<and> (POST \<in> verb ` set (issued w (snd (updateEvent E calendar eventId event w))) \<longleftrightarrow>
        (\<exists>native updatedEvent r.
            toMicrosoftEvent E event = Inr native
          \<and> graph E (requests w) (event_patch E calendar eventId native) = Inr updatedEvent
          \<and> response event = Some r \<and> status r \<noteq> Unknown))"
proof -
  have trace: "requests (snd (updateEvent E calendar eventId event w)) =
     requests w @
     (case toMicrosoftEvent E event of
        Inl e \<Rightarrow> []
      | Inr native \<Rightarrow>
          event_patch E calendar eventId native #
          (case graph E (requests w) (event_patch E calendar eventId native) of
             Inl e \<Rightarrow> []
           | Inr updatedEvent \<Rightarrow>
               (case response event of None \<Rightarrow> [] | Some r \<Rightarrow> rsvp_posts eventId r)))"
    by (simp add: updateEvent_def withErrorHandler_requests updateEvent_fn_requests)
  have posts: "POST \<in> verb ` set (rsvp_posts eventId r) \<longleftrightarrow> status r \<noteq> Unknown" for r
    by (cases "status r") (simp_all add: rsvp_posts_def rsvp_post_def)
  have patch: "verb (event_patch E calendar eventId native) \<noteq> POST" for native
    by (simp add: event_patch_def)
  have "POST \<in> verb ` set (issued w (snd (updateEvent E calendar eventId event w))) \<longleftrightarrow>
        (\<exists>native updatedEvent r.
            toMicrosoftEvent E event = Inr native
          \<and> graph E (requests w) (event_patch E calendar eventId native) = Inr updatedEvent
          \<and> response event = Some r \<and> status r \<noteq> Unknown)"
  proof (cases "toMicrosoftEvent E event")
    case (Inl e)
    then show ?thesis by (simp add: issued_def trace)
  next
    case native: (Inr native)
    show ?thesis
    proof (cases "graph E (requests w) (event_patch E calendar eventId native)")
      case (Inl e)
      with native patch[of native] show ?thesis
        by (auto simp: issued_def trace)
    next
      case patched: (Inr updatedEvent)
      show ?thesis
      proof (cases "response event")
        case None
        with native patched patch[of native] show ?thesis
          by (auto simp: issued_def trace)
      next
        case (Some r)
        with native patched patch[of native] posts[of r] show ?thesis
          by (auto simp: issued_def trace)
      qed
    qed
  qed
  with trace show ?thesis by blast
qed

theorem updateEvent_rsvp_sequencing_witness:
  "requests (snd (updateEvent (sample_env (sample_graph True)) sample_calendar ''evt1''
      \<lparr>response = Some accept_input, rest = JNull\<rparr> sample_world)) =
     [Request PATCH (api ''/me/calendars/c1/events/evt1'') (Some (Payload JNull)),
      Request POST (api ''/me/events/evt1/accept'') (Some (Rsvp None (Some True)))]
   \<and> requests (snd (updateEvent (sample_env offline_graph) sample_calendar ''evt1''
      \<lparr>response = Some accept_input, rest = JNull\<rparr> sample_world)) =
     [Request PATCH (api ''/me/calendars/c1/events/evt1'') (Some (Payload JNull))]"
  using updateEvent_rsvp_sequencing[where E = "sample_env (sample_graph True)"
      and calendar = sample_calendar and eventId = "''evt1''"
      and event = "\<lparr>response = Some accept_input, rest = JNull\<rparr>" and w = sample_world]
    updateEvent_rsvp_sequencing[where E = "sample_env offline_graph"
      and calendar = sample_calendar and eventId = "''evt1''"
      and event = "\<lparr>response = Some accept_input, rest = JNull\<rparr>" and w = sample_world]
  by (simp add: sample_env_def sample_graph_def offline_graph_def sample_world_def
      sample_calendar_def accept_input_def event_patch_def rsvp_posts_def rsvp_post_def)

text \<open>
  C4. When the PATCH succeeds and the RSVP POST fails with \<open>e\<close>, \<open>updateEvent\<close> rejects with
  the \<open>ProviderError\<close> of \<open>e\<close>, and the PATCH and the POST are all it has issued: nothing
  undoes the update.
\<close>

theorem updateEvent_rsvp_failure_surfaces:
  assumes "toMicrosoftEvent E event = Inr native"
    and "graph E (requests w) (event_patch E calendar eventId native) = Inr updatedEvent"
    and "response event = Some r"
    and "rsvp_posts eventId r = [q]"
    and "graph E (requests w @ [event_patch E calendar eventId native]) q = Inl e"
  shows "updateEvent E calendar eventId event w =
           (Inl \<lparr>underlyingError = e, operationName = ''updateEvent'', context' = None\<rparr>,
            w\<lparr>requests := requests w @ [event_patch E calendar eventId native, q],
              console := console w @ [(''Failed to updateEvent:'', e)]\<rparr>)"
  by (simp add: updateEvent_def withErrorHandler_def updateEvent_fn_rsvp_fails[OF assms])

theorem updateEvent_rsvp_failure_surfaces_witness:
  "updateEvent (sample_env (sample_graph False)) sample_calendar ''evt1''
     \<lparr>response = Some accept_input, rest = JNull\<rparr> sample_world =
   (Inl \<lparr>underlyingError = GraphError 403 ''Forbidden'', operationName = ''updateEvent'', context' = None\<rparr>,
    sample_world\<lparr>requests := [Request PATCH (api ''/me/calendars/c1/events/evt1'') (Some (Payload JNull)),
                              Request POST (api ''/me/events/evt1/accept'') (Some (Rsvp None (Some True)))],
      console := [(''Failed to updateEvent:'', GraphError 403 ''Forbidden'')]\<rparr>)"
  using updateEvent_rsvp_failure_surfaces[where E = "sample_env (sample_graph False)"
      and event = "\<lparr>response = Some accept_input, rest = JNull\<rparr>" and native = JNull
      and w = sample_world and calendar = sample_calendar and eventId = "''evt1''"
      and updatedEvent = stored_event and r = accept_input
      and q = "Request POST (api ''/me/events/evt1/accept'') (Some (Rsvp None (Some True)))"
      and e = "GraphError 403 ''Forbidden''"]
  by (simp add: sample_env_def sample_graph_def sample_world_def sample_calendar_def
      accept_input_def event_patch_def rsvp_posts_def rsvp_post_def)

text \<open>
  C8. The event \<open>updateEvent\<close> returns is the mapper's reading of the PATCH response. A
  provider that answers the PATCH alike yields the same event, whatever it answers to the
  RSVP POST.
\<close>

theorem updateEvent_result_from_patch:
  assumes "updateEvent E calendar eventId event w = (Inr updated, w')"
  shows "\<exists>native patched.
           toMicrosoftEvent E event = Inr native
         \<and> graph E (requests w) (event_patch E calendar eventId native) = Inr patched
         \<and> parseMicrosoftEvent E patched (MicrosoftCalendarProvider.accountId (self w)) calendar = Inr updated
         \<and> (\<forall>g updated' w''.
               g (requests w) (event_patch E calendar eventId native) = Inr patched \<longrightarrow>
               updateEvent (E\<lparr>graph := g\<rparr>) calendar eventId event w = (Inr updated', w'') \<longrightarrow>
               updated' = updated)"
proof -
  from assms have "updateEvent_fn E calendar eventId event w = (Inr updated, w')"
    by (simp add: updateEvent_def withErrorHandler_Inr)
  from updateEvent_fn_Inr[OF this] obtain native patched where
    n: "toMicrosoftEvent E event = Inr native"
    and p: "graph E (requests w) (event_patch E calendar eventId native) = Inr patched"
    and u: "parseMicrosoftEvent E patched (MicrosoftCalendarProvider.accountId (self w)) calendar = Inr updated"
    by blast
  have "updated' = updated"
    if g: "g (requests w) (event_patch E calendar eventId native) = Inr patched"
      and r: "updateEvent (E\<lparr>graph := g\<rparr>) calendar eventId event w = (Inr updated', w'')"
    for g updated' w''
  proof -
    from r have "updateEvent_fn (E\<lparr>graph := g\<rparr>) calendar eventId event w = (Inr updated', w'')"
      by (simp add: updateEvent_def withErrorHandler_Inr)
    from updateEvent_fn_Inr[OF this] obtain native' patched' where
      "toMicrosoftEvent E event = Inr native'"
      "g (requests w) (event_patch E calendar eventId native') = Inr patched'"
      "parseMicrosoftEvent E patched' (MicrosoftCalendarProvider.accountId (self w)) calendar = Inr updated'"
      by (auto simp: event_patch_def)
    with n g u show ?thesis by simp
  qed
  with n p u show ?thesis by blast
qed

theorem updateEvent_result_from_patch_witness:
  "\<exists>native patched.
      toMicrosoftEvent (sample_env (sample_graph True)) \<lparr>response = Some accept_input, rest = JNull\<rparr> = Inr native
    \<and> graph (sample_env (sample_graph True)) []
         (event_patch (sample_env (sample_graph True)) sample_calendar ''evt1'' native) = Inr patched
    \<and> parseMicrosoftEvent (sample_env (sample_graph True)) patched ''acct-1'' sample_calendar =
         Inr \<lparr>CalendarEvent.id = ''evt1'', calendarId' = ''c1'', accountId = ''acct-1'',
              providerId = Microsoft, raw = stored_event\<rparr>"
proof -
  from updateEvent_result_from_patch[OF sample_update] obtain native patched where
    "toMicrosoftEvent (sample_env (sample_graph True)) \<lparr>response = Some accept_input, rest = JNull\<rparr> = Inr native"
    "graph (sample_env (sample_graph True)) (requests sample_world)
         (event_patch (sample_env (sample_graph True)) sample_calendar ''evt1'' native) = Inr patched"
    "parseMicrosoftEvent (sample_env (sample_graph True)) patched
         (MicrosoftCalendarProvider.accountId (self sample_world)) sample_calendar =
         Inr \<lparr>CalendarEvent.id = ''evt1'', calendarId' = ''c1'', accountId = ''acct-1'',
              providerId = Microsoft, raw = stored_event\<rparr>"
    by blast
  then show ?thesis
    by (simp add: sample_world_def constructor_def)
qed

section \<open>Responding to an invitation\<close>

text \<open>
  C6. With status "unknown", \<open>responseToEvent\<close> resolves and leaves the world as it was: no
  request is issued.
\<close>

theorem responseToEvent_unknown_noop:
  "status r = Unknown \<Longrightarrow> responseToEvent E calendarId eventId r w = (Inr (), w)"
  by (simp add: responseToEvent_def responseToEvent_fn_def run_defs)

theorem responseToEvent_unknown_noop_witness:
  "responseToEvent (sample_env offline_graph) ''c1'' ''evt1''
     \<lparr>status = Unknown, comment = None, sendUpdate = None\<rparr> sample_world = (Inr (), sample_world)"
  using responseToEvent_unknown_noop[where r = "\<lparr>status = Unknown, comment = None, sendUpdate = None\<rparr>"
      and E = "sample_env offline_graph" and calendarId = "''c1''" and eventId = "''evt1''"
      and w = sample_world]
  by simp

text \<open>
  C7. With status "accepted", "declined" or "tentative", \<open>responseToEvent\<close> issues exactly
  one request, the POST to the event's action path, and the action is the one
  \<open>eventResponseStatusPath\<close> gives for the status.
\<close>

theorem responseToEvent_single_post:
  assumes "status r \<in> {Accepted, Declined, Tentative}"
  shows "\<exists>action. eventResponseStatusPath (status r) = Inr action
         \<and> action \<in> {''accept'', ''decline'', ''tentativelyAccept''}
         \<and> requests (snd (responseToEvent E calendarId eventId r w)) =
             requests w @ [Request POST (api (''/me/events/'' @ eventId @ ''/'' @ action))
                             (Some (Rsvp (comment r) (sendUpdate r)))]"
  using assms
  by (cases "status r")
     (auto simp: responseToEvent_def responseToEvent_fn_def run_defs Let_def
           split: sum.splits prod.splits)

theorem responseToEvent_single_post_witness:
  "requests (snd (responseToEvent (sample_env offline_graph) ''c1'' ''evt1'' accept_input sample_world)) =
     [Request POST (api ''/me/events/evt1/accept'') (Some (Rsvp None (Some True)))]"
  using responseToEvent_single_post[where r = accept_input and E = "sample_env offline_graph"
      and calendarId = "''c1''" and eventId = "''evt1''" and w = sample_world]
  by (simp add: accept_input_def sample_world_def)

end
